theory Spec2Isabelle
  imports Complex_Main
begin

section \<open>JavaScript values read by the map component\<close>

text \<open>
  The component \<^verbatim>\<open>MapView.jsx\<close> receives its data as parsed JSON. A property such as
  \<^verbatim>\<open>Ward_No\<close> may be missing (\<^verbatim>\<open>undefined\<close>), \<^verbatim>\<open>null\<close>, a boolean, a number or a string.
  Numbers that occur as ward numbers or identifiers are integers, so \<open>JNum\<close> carries
  an \<^typ>\<open>int\<close>; measured quantities (coordinates, readings) are modelled further below
  as \<^typ>\<open>real\<close>, that is with exact arithmetic in place of IEEE doubles.
\<close>

datatype jsval = JUndefined | JNull | JBool bool | JNum int | JStr string

text \<open>Truthiness, as used by \<^verbatim>\<open>if (v)\<close>, \<^verbatim>\<open>a && b\<close> and \<^verbatim>\<open>a || b\<close>.\<close>

fun js_truthy :: "jsval \<Rightarrow> bool" where
  "js_truthy JUndefined = False"
| "js_truthy JNull = False"
| "js_truthy (JBool b) = b"
| "js_truthy (JNum n) = (n \<noteq> 0)"
| "js_truthy (JStr s) = (s \<noteq> [])"

text \<open>\<^verbatim>\<open>a || b\<close> on values.\<close>

definition js_or :: "jsval \<Rightarrow> jsval \<Rightarrow> jsval" where
  "js_or a b = (if js_truthy a then a else b)"

text \<open>Decimal digits of a natural number, most significant first.\<close>

fun decimal_nat :: "nat \<Rightarrow> string" where
  "decimal_nat n =
     (if n < 10 then [''0123456789'' ! n]
      else decimal_nat (n div 10) @ [''0123456789'' ! (n mod 10)])"

declare decimal_nat.simps [simp del]

text \<open>\<^verbatim>\<open>String(v)\<close>; for a truthy value \<^verbatim>\<open>v.toString()\<close> gives the same string.\<close>

fun js_String :: "jsval \<Rightarrow> string" where
  "js_String JUndefined = ''undefined''"
| "js_String JNull = ''null''"
| "js_String (JBool b) = (if b then ''true'' else ''false'')"
| "js_String (JNum n) = (if n < 0 then CHR ''-'' # decimal_nat (nat (- n)) else decimal_nat (nat n))"
| "js_String (JStr s) = s"

section \<open>Data model\<close>

text \<open>A point \<^verbatim>\<open>{lat, lon}\<close>; a station object extends it with its readings.\<close>

record latlon =
  lat :: real
  lon :: real

text \<open>
  The six pollutant keys of \<^verbatim>\<open>pollutantKeys\<close>. A station's reading \<^verbatim>\<open>station[key]\<close> may
  be \<^verbatim>\<open>null\<close> or \<^verbatim>\<open>undefined\<close>: both are \<open>None\<close> in the map \<open>readings\<close>. The fields
  \<^verbatim>\<open>lat\<close>, \<^verbatim>\<open>lon\<close> and \<^verbatim>\<open>aqi\<close> are read by the source without any check and are
  numbers here.
\<close>

datatype pollutantKey = PM25 | PM10 | NO2 | SO2 | CO | O3

record station = latlon +
  station_name :: string
  station_aqi :: real
  readings :: "pollutantKey \<rightharpoonup> real"

text \<open>
  A GeoJSON position is \<^verbatim>\<open>[lon, lat]\<close>; a ring is an array of positions. Ward boundaries
  are polygons (an array of rings) or multi-polygons (an array of polygons); the other
  geometry types of GeoJSON are not modelled. Any of the arrays may be empty.
\<close>

type_synonym position = "real \<times> real"
type_synonym ring = "position list"

datatype geometry = Polygon "ring list" | MultiPolygon "ring list list"

record properties =
  Ward_No :: jsval
  Ward_Name :: jsval

record feature =
  feature_id :: jsval
  properties :: "properties option"
  geometry :: "geometry option"

record breakdown =
  traffic :: real
  industrial :: real
  construction_dust :: real
  biomass_burning :: real
  other :: real

record ward =
  ward_id :: jsval
  name :: jsval
  ward_no :: jsval
  aqi :: real
  dominant_source :: string
  pollution_breakdown :: breakdown
  pollutants :: "pollutantKey \<rightharpoonup> real"
  recommendations :: "string list"
  coordinates :: latlon
  population :: real
  area_sqkm :: real
  trend :: string
  last_updated :: string

text \<open>\<^verbatim>\<open>feature.properties?.Ward_No\<close> and \<^verbatim>\<open>feature.properties?.Ward_Name\<close>.\<close>

definition prop_Ward_No :: "feature \<Rightarrow> jsval" where
  "prop_Ward_No f = (case properties f of None \<Rightarrow> JUndefined | Some p \<Rightarrow> Ward_No p)"

definition prop_Ward_Name :: "feature \<Rightarrow> jsval" where
  "prop_Ward_Name f = (case properties f of None \<Rightarrow> JUndefined | Some p \<Rightarrow> Ward_Name p)"

section \<open>Matching a feature to a ward\<close>

text \<open>
  \<^verbatim>\<open>findWardForFeature\<close> (lines 94--106). The feature handed over by the GeoJSON layer
  is always an object, so the test \<^verbatim>\<open>!feature\<close> is false. \<^verbatim>\<open>wards.find\<close> is
  \<^const>\<open>List.find\<close>; a ward found is an object and hence truthy.
\<close>

definition findWardForFeature :: "feature \<Rightarrow> ward list \<Rightarrow> ward option" where
  "findWardForFeature f wards =
     (if length wards = 0 then None
      else if properties f \<noteq> None \<and> js_truthy (prop_Ward_No f) then
        (let wardNo = js_String (prop_Ward_No f)
         in List.find (\<lambda>w. js_String (ward_no w) = wardNo) wards)
      else None)"


section \<open>Numbers\<close>

text \<open>
  \<^verbatim>\<open>Math.round\<close> rounds to the nearest integer, a tie going up. \<^verbatim>\<open>x % y\<close> is the
  remainder of the quotient truncated towards zero; the source divides by the constants
  \<open>12\<close> and \<open>400000\<close> only.
\<close>

definition js_round :: "real \<Rightarrow> real" where
  "js_round x = of_int \<lfloor>x + 1 / 2\<rfloor>"

definition js_rem :: "real \<Rightarrow> real \<Rightarrow> real" where
  "js_rem x y = x - y * of_int (if 0 \<le> x / y then \<lfloor>x / y\<rfloor> else \<lceil>x / y\<rceil>)"

section \<open>Centroid of a feature\<close>

datatype error = TypeError

text \<open>
  Lines 117--122: \<^verbatim>\<open>coordinates[0][0]\<close> for a \<^verbatim>\<open>MultiPolygon\<close>, \<^verbatim>\<open>coordinates[0]\<close>
  otherwise. Reading index 0 of an empty array gives \<^verbatim>\<open>undefined\<close> (\<open>None\<close>); indexing
  \<^verbatim>\<open>undefined\<close> again raises a \<^verbatim>\<open>TypeError\<close>.
\<close>

definition featureCoords :: "geometry \<Rightarrow> error + ring option" where
  "featureCoords g =
     (case g of
        MultiPolygon parts \<Rightarrow>
          (case parts of
             [] \<Rightarrow> Inl TypeError
           | p # _ \<Rightarrow> Inr (case p of [] \<Rightarrow> None | r # _ \<Rightarrow> Some r))
      | Polygon rings \<Rightarrow> Inr (case rings of [] \<Rightarrow> None | r # _ \<Rightarrow> Some r))"

text \<open>\<^verbatim>\<open>getFeatureCentroid\<close> (lines 114--132); \<^verbatim>\<open>reduce\<close> runs from the left.\<close>

definition getFeatureCentroid :: "feature \<Rightarrow> error + latlon option" where
  "getFeatureCentroid f =
     (case geometry f of
        None \<Rightarrow> Inr None
      | Some g \<Rightarrow>
          (case featureCoords g of
             Inl e \<Rightarrow> Inl e
           | Inr None \<Rightarrow> Inr None
           | Inr (Some coords) \<Rightarrow>
               if length coords = 0 then Inr None
               else
                 (let sumLon = fold (\<lambda>c sum. sum + fst c) coords 0;
                      sumLat = fold (\<lambda>c sum. sum + snd c) coords 0
                  in Inr (Some \<lparr>lat = sumLat / real (length coords),
                                 lon = sumLon / real (length coords)\<rparr>))))"

section \<open>Interpolated AQI\<close>

text \<open>
  The weight of one station (lines 146--150, and again lines 234--238):
  \<^verbatim>\<open>dist = Math.sqrt(Math.pow(dlat, 2) + Math.pow(dlon, 2))\<close>,
  \<^verbatim>\<open>weight = 1 / Math.max(dist * dist, 0.0001)\<close>.
\<close>

definition idwWeight :: "latlon \<Rightarrow> station \<Rightarrow> real" where
  "idwWeight centroid station =
     (let dist = sqrt ((lat station - lat centroid)\<^sup>2 + (lon station - lon centroid)\<^sup>2)
      in 1 / max (dist * dist) 0.0001)"

text \<open>The loop of lines 144--153 with its two accumulators.\<close>

definition aqiSums :: "latlon \<Rightarrow> station list \<Rightarrow> real \<times> real" where
  "aqiSums centroid stations =
     fold (\<lambda>station (weightSum, valueSum).
             (let weight = idwWeight centroid station
              in (weightSum + weight, valueSum + weight * station_aqi station)))
          stations (0, 0)"

text \<open>Line 155.\<close>

definition rawAqi :: "latlon \<Rightarrow> station list \<Rightarrow> real" where
  "rawAqi centroid stations =
     (case aqiSums centroid stations of
        (weightSum, valueSum) \<Rightarrow>
          if weightSum > 0 then js_round (valueSum / weightSum) else 180)"

text \<open>Lines 157--164: the traffic reduction applied to the raw value.\<close>

definition applyTrafficReduction :: "real \<Rightarrow> real \<Rightarrow> real" where
  "applyTrafficReduction raw trafficReduction =
     (if trafficReduction > 0 then
        (let reductionFactor = 0.40 * (trafficReduction / 100)
         in js_round (raw * (1 - reductionFactor)))
      else raw)"

text \<open>\<^verbatim>\<open>getInterpolatedAqi\<close> (lines 137--165).\<close>

definition getInterpolatedAqi :: "feature \<Rightarrow> station list \<Rightarrow> real \<Rightarrow> error + real" where
  "getInterpolatedAqi f stations trafficReduction =
     (if length stations = 0 then Inr 180
      else
        (case getFeatureCentroid f of
           Inl e \<Rightarrow> Inl e
         | Inr None \<Rightarrow> Inr 180
         | Inr (Some centroid) \<Rightarrow>
             Inr (applyTrafficReduction (rawAqi centroid stations) trafficReduction)))"

section \<open>The click handler of a feature\<close>

text \<open>Line 193, line 196 (the same expression as line 173) and line 198.\<close>

definition wardName :: "feature \<Rightarrow> ward option \<Rightarrow> jsval" where
  "wardName f ward =
     js_or (prop_Ward_Name f)
       (js_or (case ward of None \<Rightarrow> JUndefined | Some w \<Rightarrow> name w) (JStr ''Unknown Ward''))"

definition featureAqi :: "feature \<Rightarrow> ward list \<Rightarrow> station list \<Rightarrow> real \<Rightarrow> error + real" where
  "featureAqi f wards stations trafficReduction =
     (case findWardForFeature f wards of
        Some w \<Rightarrow> Inr (aqi w)
      | None \<Rightarrow> getInterpolatedAqi f stations trafficReduction)"

definition isEstimated :: "feature \<Rightarrow> ward list \<Rightarrow> bool" where
  "isEstimated f wards = (findWardForFeature f wards = None)"

text \<open>Lines 230--242: the accumulators for one pollutant key.\<close>

definition pollutantSums :: "pollutantKey \<Rightarrow> latlon \<Rightarrow> station list \<Rightarrow> real \<times> real" where
  "pollutantSums key centroid stations =
     fold (\<lambda>station (weightSum, valueSum).
             (case readings station key of
                None \<Rightarrow> (weightSum, valueSum)
              | Some v \<Rightarrow>
                  if v > 0 then
                    (let weight = idwWeight centroid station
                     in (weightSum + weight, valueSum + weight * v))
                  else (weightSum, valueSum)))
          stations (0, 0)"

text \<open>Line 243; \<^verbatim>\<open>null\<close> is \<open>None\<close>.\<close>

definition interpolatePollutant :: "pollutantKey \<Rightarrow> latlon \<Rightarrow> station list \<Rightarrow> real option" where
  "interpolatePollutant key centroid stations =
     (case pollutantSums key centroid stations of
        (weightSum, valueSum) \<Rightarrow>
          if weightSum > 0 then Some (js_round (valueSum / weightSum * 100) / 100) else None)"

text \<open>
  Line 247: the sum of the character codes of \<^verbatim>\<open>(Ward_No || '0').toString()\<close>. The
  characters of a \<^typ>\<open>string\<close> have the codes 0 to 255, which covers the digits and
  letters of a ward number.
\<close>

definition wardNoHash :: "feature \<Rightarrow> nat" where
  "wardNoHash f =
     fold (\<lambda>c a. a + of_char c) (js_String (js_or (prop_Ward_No f) (JStr ''0''))) 0"

text \<open>
  The object handed to \<^verbatim>\<open>onWardClick\<close> when the feature is clicked (lines 216--279).
  The value \<^verbatim>\<open>aqi\<close> was computed when the handler was installed (line 196); \<open>now\<close> is
  the result of \<^verbatim>\<open>new Date().toISOString()\<close>.
\<close>

definition clickedWard ::
  "feature \<Rightarrow> ward list \<Rightarrow> station list \<Rightarrow> real \<Rightarrow> string \<Rightarrow> error + ward" where
  "clickedWard f wards stations trafficReduction now =
     (let ward = findWardForFeature f wards
      in case featureAqi f wards stations trafficReduction of
           Inl e \<Rightarrow> Inl e
         | Inr aqi_value \<Rightarrow>
             (case ward of
                Some w \<Rightarrow> Inr w
              | None \<Rightarrow>
                  (case getFeatureCentroid f of
                     Inl e \<Rightarrow> Inl e
                   | Inr c \<Rightarrow>
                       (let centroid = (case c of None \<Rightarrow> \<lparr>lat = 28.7041, lon = 77.1025\<rparr>
                                                 | Some p \<Rightarrow> p);
                            h = real (wardNoHash f);
                            population_value = 80000 + js_rem (h * 1234) 400000;
                            area = 2.5 + js_rem (h * 0.17) 12
                        in Inr \<lparr>ward_id = feature_id f,
                                name = wardName f ward,
                                ward_no = js_or (prop_Ward_No f) (JStr ''N/A''),
                                aqi = aqi_value,
                                dominant_source = ''Estimated'',
                                pollution_breakdown =
                                  \<lparr>traffic = 30, industrial = 20, construction_dust = 20,
                                   biomass_burning = 15, other = 15\<rparr>,
                                pollutants = (\<lambda>key. interpolatePollutant key centroid stations),
                                recommendations =
                                  [''AQI data estimated from nearby stations'',
                                   ''Wear N95 mask when outdoors'',
                                   ''Limit outdoor activities during peak hours'',
                                   ''Keep windows closed'',
                                   ''Use air purifiers indoors''],
                                coordinates = centroid,
                                population = population_value,
                                area_sqkm = js_round (area * 10) / 10,
                                trend = ''Stable'',
                                last_updated = now\<rparr>))))"


section \<open>The components as the specification words them\<close>

text \<open>
  The specification describes the estimation engine as separate components. The
  definitions of this section follow its sentences, not the source; they are what the
  source's functions are compared with.

  A channel is the AQI or one of the six pollutants; a station has ``a scalar reading
  per pollutant channel'', ``missing channel readings are explicitly absent''.
\<close>

datatype channel = AQI | Pollutant pollutantKey










section \<open>Example data\<close>

definition squareRing :: ring where
  "squareRing = [(0, 0), (0, 2), (2, 2), (2, 0)]"

definition exampleWard :: "jsval \<Rightarrow> jsval \<Rightarrow> real \<Rightarrow> ward" where
  "exampleWard i no a =
     \<lparr>ward_id = i, name = JStr ''Ward'', ward_no = no, aqi = a,
      dominant_source = ''Traffic'',
      pollution_breakdown =
        \<lparr>traffic = 40, industrial = 20, construction_dust = 20, biomass_burning = 10, other = 10\<rparr>,
      pollutants = Map.empty, recommendations = [],
      coordinates = \<lparr>lat = 28.6, lon = 77.2\<rparr>, population = 120000, area_sqkm = 4.2,
      trend = ''Rising'', last_updated = ''2024-01-01T00:00:00.000Z''\<rparr>"

definition ward7 :: ward where
  "ward7 = exampleWard (JNum 7) (JStr ''7'') 210"

definition ward12 :: ward where
  "ward12 = exampleWard (JNum 12) (JNum 12) 95"

definition wardZero :: ward where
  "wardZero = exampleWard (JNum 1) (JNum 0) 130"

definition exampleFeature :: "string \<Rightarrow> jsval \<Rightarrow> geometry option \<Rightarrow> feature" where
  "exampleFeature i no g =
     \<lparr>feature_id = JStr i, properties = Some \<lparr>Ward_No = no, Ward_Name = JUndefined\<rparr>,
      geometry = g\<rparr>"

definition feature3 :: feature where
  "feature3 = exampleFeature ''feature-3'' (JStr ''7'') (Some (Polygon [squareRing]))"

definition feature9 :: feature where
  "feature9 = exampleFeature ''feature-9'' JUndefined (Some (Polygon [squareRing]))"

definition featureZero :: feature where
  "featureZero = exampleFeature ''feature-0'' (JNum 0) (Some (Polygon [squareRing]))"


definition stationA :: station where
  "stationA = \<lparr>lat = 1, lon = 1, station_name = ''A'', station_aqi = 100,
                readings = [PM25 \<mapsto> 12.34, PM10 \<mapsto> 0]\<rparr>"

definition stationB :: station where
  "stationB = \<lparr>lat = 1, lon = 2, station_name = ''B'', station_aqi = 300,
                readings = [PM25 \<mapsto> 50]\<rparr>"




definition featureNoProperties :: feature where
  "featureNoProperties =
     \<lparr>feature_id = JStr ''feature-8'', properties = None,
      geometry = Some (Polygon [squareRing])\<rparr>"

section \<open>The matcher\<close>

lemma findWardForFeature_find:
  "js_truthy (prop_Ward_No f) \<Longrightarrow>
   findWardForFeature f wards =
     List.find (\<lambda>w. js_String (ward_no w) = js_String (prop_Ward_No f)) wards"
  by (cases wards) (auto simp: findWardForFeature_def prop_Ward_No_def split: option.splits)

lemma findWardForFeature_falsy:
  "\<not> js_truthy (prop_Ward_No f) \<Longrightarrow> findWardForFeature f wards = None"
  by (simp add: findWardForFeature_def)

text \<open>
  Claim C1, as amended: the guard of line 98 tests the truthiness of \<^verbatim>\<open>Ward_No\<close>. If the
  matcher returns a ward, then \<^verbatim>\<open>Ward_No\<close> is truthy and the ward is the first one of the
  list whose stringified number equals the stringified \<^verbatim>\<open>Ward_No\<close>; if \<^verbatim>\<open>Ward_No\<close> is
  truthy and some ward is string-equal, a ward is returned; if \<^verbatim>\<open>Ward_No\<close> is missing or
  falsy (\<^verbatim>\<open>undefined\<close>, \<^verbatim>\<open>null\<close>, \<^verbatim>\<open>false\<close>, \<open>0\<close>, the empty string), or no ward is
  string-equal, the result is \<open>None\<close>.
\<close>

theorem findWardForFeature_first_match:
  "(findWardForFeature f wards = Some w \<longrightarrow>
      js_truthy (prop_Ward_No f) \<and>
      (\<exists>i<length wards. wards ! i = w \<and>
         js_String (ward_no w) = js_String (prop_Ward_No f) \<and>
         (\<forall>j<i. js_String (ward_no (wards ! j)) \<noteq> js_String (prop_Ward_No f)))) \<and>
   (js_truthy (prop_Ward_No f) \<and>
      (\<exists>w\<in>set wards. js_String (ward_no w) = js_String (prop_Ward_No f)) \<longrightarrow>
      (\<exists>w. findWardForFeature f wards = Some w)) \<and>
   (\<not> js_truthy (prop_Ward_No f) \<or>
      (\<forall>w\<in>set wards. js_String (ward_no w) \<noteq> js_String (prop_Ward_No f)) \<longrightarrow>
      findWardForFeature f wards = None)"
proof (cases "js_truthy (prop_Ward_No f)")
  case False
  then show ?thesis by (simp add: findWardForFeature_falsy)
next
  case True
  let ?P = "\<lambda>w. js_String (ward_no w) = js_String (prop_Ward_No f)"
  have eq: "findWardForFeature f wards = List.find ?P wards"
    using True by (rule findWardForFeature_find)
  have first: "List.find ?P wards = Some w \<longrightarrow>
      (\<exists>i<length wards. wards ! i = w \<and> ?P w \<and> (\<forall>j<i. \<not> ?P (wards ! j)))"
    by (auto simp: find_Some_iff)
  have found: "(\<exists>w\<in>set wards. ?P w) \<longrightarrow> (\<exists>w. List.find ?P wards = Some w)"
    by (cases "List.find ?P wards") (auto simp: find_None_iff)
  have missing: "(\<forall>w\<in>set wards. \<not> ?P w) \<longrightarrow> List.find ?P wards = None"
    by (auto simp: find_None_iff)
  from first found missing show ?thesis
    unfolding eq using True by simp
qed

text \<open>
  Witness for C1: feature \<open>feature3\<close> (\<^verbatim>\<open>Ward_No: "7"\<close>) against the wards numbered 12 and
  "7" is matched to the second; \<open>feature9\<close>, without \<^verbatim>\<open>Ward_No\<close>, is matched to none.
\<close>

theorem findWardForFeature_first_match_witness:
  "js_truthy (prop_Ward_No feature3) \<and>
   (\<exists>w\<in>set [ward12, ward7]. js_String (ward_no w) = js_String (prop_Ward_No feature3)) \<and>
   findWardForFeature feature3 [ward12, ward7] = Some ward7 \<and>
   [ward12, ward7] ! 1 = ward7 \<and>
   js_String (ward_no ([ward12, ward7] ! 0)) \<noteq> js_String (prop_Ward_No feature3) \<and>
   \<not> js_truthy (prop_Ward_No feature9) \<and>
   findWardForFeature feature9 [ward12, ward7] = None"
  using findWardForFeature_first_match [of feature3 "[ward12, ward7]" ward7]
    findWardForFeature_first_match [of feature9 "[ward12, ward7]" ward7]
  by (simp add: findWardForFeature_def prop_Ward_No_def feature3_def feature9_def
      exampleFeature_def ward12_def ward7_def exampleWard_def decimal_nat.simps)

text \<open>
  Counterexample to C1 as stated: the feature's \<^verbatim>\<open>Ward_No\<close> is the number 0 and the only
  ward has the number 0, so the two are string-equal (\<^verbatim>\<open>"0"\<close>), yet no ward is returned.
\<close>

theorem findWardForFeature_zero_counterexample:
  "prop_Ward_No featureZero = JNum 0 \<and>
   js_String (ward_no wardZero) = js_String (prop_Ward_No featureZero) \<and>
   findWardForFeature featureZero [wardZero] = None"
  by (simp add: findWardForFeature_def prop_Ward_No_def featureZero_def exampleFeature_def
      wardZero_def exampleWard_def)

section \<open>Rounding\<close>

lemma js_round_nearest: "x - 1 / 2 < js_round x \<and> js_round x \<le> x + 1 / 2"
  unfolding js_round_def by linarith

lemma js_round_of_int: "js_round (of_int n) = of_int n"
proof -
  have "\<lfloor>real_of_int n + 1 / 2\<rfloor> = n" by linarith
  then show ?thesis by (simp add: js_round_def)
qed

section \<open>The centroid\<close>




text \<open>
  A geometry without any ring: \<^verbatim>\<open>coords\<close> is \<^verbatim>\<open>undefined\<close> and the result is \<^verbatim>\<open>null\<close>,
  except for a \<^verbatim>\<open>MultiPolygon\<close> without parts, where \<^verbatim>\<open>coordinates[0][0]\<close> raises.
\<close>

lemma getFeatureCentroid_no_ring:
  "getFeatureCentroid (f\<lparr>geometry := Some (Polygon [])\<rparr>) = Inr None"
  "getFeatureCentroid (f\<lparr>geometry := Some (MultiPolygon ([] # ps))\<rparr>) = Inr None"
  "getFeatureCentroid (f\<lparr>geometry := Some (MultiPolygon [])\<rparr>) = Inl TypeError"
  by (simp_all add: getFeatureCentroid_def featureCoords_def)



section \<open>The traffic scenario\<close>



section \<open>Matched features\<close>

text \<open>
  Claim C8: when the matcher finds a ward, the click handler hands over that very record,
  whatever the stations, the traffic reduction and the time are; the displayed AQI is
  the record's own \<^verbatim>\<open>aqi\<close>, and the feature is not flagged as estimated.
\<close>

theorem matched_ward_untouched:
  "findWardForFeature f wards = Some w \<longrightarrow>
     clickedWard f wards stations p now = Inr w \<and>
     featureAqi f wards stations p = Inr (aqi w) \<and>
     \<not> isEstimated f wards"
  by (simp add: clickedWard_def featureAqi_def isEstimated_def)

text \<open>
  Witness for C8: \<open>feature3\<close> (\<^verbatim>\<open>Ward_No: "7"\<close>) with the ward numbered "7" of AQI 210,
  under a traffic reduction of 50 percent.
\<close>

theorem matched_ward_untouched_witness:
  "findWardForFeature feature3 [ward12, ward7] = Some ward7 \<and>
   clickedWard feature3 [ward12, ward7] [stationA, stationB] 50 ''2024-05-05T10:00:00.000Z'' = Inr ward7 \<and>
   featureAqi feature3 [ward12, ward7] [stationA, stationB] 50 = Inr 210 \<and>
   \<not> isEstimated feature3 [ward12, ward7]"
proof -
  have m: "findWardForFeature feature3 [ward12, ward7] = Some ward7"
    by (simp add: findWardForFeature_def prop_Ward_No_def feature3_def
      exampleFeature_def ward12_def ward7_def exampleWard_def decimal_nat.simps)
  have a: "aqi ward7 = 210" by (simp add: ward7_def exampleWard_def)
  from m a matched_ward_untouched [of feature3 "[ward12, ward7]" ward7 "[stationA, stationB]" 50
      "''2024-05-05T10:00:00.000Z''"]
  show ?thesis by simp
qed

section \<open>Inverse distance weighting\<close>


























section \<open>Unmatched features\<close>



text \<open>The centroid raises for a multi-polygon without parts, and for no other feature.\<close>

lemma getFeatureCentroid_total:
  "geometry f \<noteq> Some (MultiPolygon []) \<Longrightarrow> \<exists>c. getFeatureCentroid f = Inr c"
  by (auto simp: getFeatureCentroid_def featureCoords_def Let_def
      split: option.splits geometry.splits list.splits)

lemma getFeatureCentroid_raises:
  "geometry f = Some (MultiPolygon []) \<Longrightarrow> getFeatureCentroid f = Inl TypeError"
  by (simp add: getFeatureCentroid_def featureCoords_def)




section \<open>Determinism\<close>

text \<open>
  Claim C9: the record handed over on a click is a function of the feature, the wards,
  the stations, the traffic reduction and the time of the click, and the time enters the
  field \<^verbatim>\<open>last_updated\<close> only: two resolutions at different times agree once that
  field is set to a common value, errors included; for a matched feature they agree
  outright.
\<close>

theorem clickedWard_deterministic:
  "map_sum id (\<lambda>w. w\<lparr>last_updated := t\<rparr>) (clickedWard f wards stations p now1) =
   map_sum id (\<lambda>w. w\<lparr>last_updated := t\<rparr>) (clickedWard f wards stations p now2) \<and>
   (\<not> isEstimated f wards \<longrightarrow>
      clickedWard f wards stations p now1 = clickedWard f wards stations p now2)"
  by (auto simp: clickedWard_def isEstimated_def Let_def split: sum.splits option.splits)

text \<open>
  Witness for C9: the unmatched \<open>feature9\<close> clicked at two different times, and the
  matched \<open>feature3\<close>.
\<close>

theorem clickedWard_deterministic_witness:
  "map_sum id (\<lambda>w. w\<lparr>last_updated := ''''\<rparr>)
     (clickedWard feature9 [ward12, ward7] [stationA, stationB] 50 ''2024-05-05T10:00:00.000Z'') =
   map_sum id (\<lambda>w. w\<lparr>last_updated := ''''\<rparr>)
     (clickedWard feature9 [ward12, ward7] [stationA, stationB] 50 ''2024-05-05T10:00:07.000Z'') \<and>
   \<not> isEstimated feature3 [ward12, ward7] \<and>
   clickedWard feature3 [ward12, ward7] [stationA, stationB] 50 ''2024-05-05T10:00:00.000Z'' =
   clickedWard feature3 [ward12, ward7] [stationA, stationB] 50 ''2024-05-05T10:00:07.000Z''"
proof -
  have m: "\<not> isEstimated feature3 [ward12, ward7]"
    by (simp add: isEstimated_def findWardForFeature_def prop_Ward_No_def feature3_def
        exampleFeature_def ward12_def ward7_def exampleWard_def decimal_nat.simps)
  from m
    clickedWard_deterministic [of "''''" feature9 "[ward12, ward7]" "[stationA, stationB]" 50
      "''2024-05-05T10:00:00.000Z''" "''2024-05-05T10:00:07.000Z''"]
    clickedWard_deterministic [of "''''" feature3 "[ward12, ward7]" "[stationA, stationB]" 50
      "''2024-05-05T10:00:00.000Z''" "''2024-05-05T10:00:07.000Z''"]
  show ?thesis by simp
qed

section \<open>Placeholder population and area\<close>

lemma wardNoHash_default: "prop_Ward_No f = JUndefined \<Longrightarrow> wardNoHash f = 48"
  by (simp add: wardNoHash_def js_or_def)

text \<open>
  Claim C10: a feature whose properties lack \<^verbatim>\<open>Ward_No\<close> is unmatched; the hash is that
  of the string \<^verbatim>\<open>'0'\<close>, 48, and the synthesized record shows the ward number
  \<^verbatim>\<open>'N/A'\<close>, the population 139232 and the area
  \<^verbatim>\<open>round((2.5 + (48 * 0.17) % 12) * 10) / 10\<close>, which is 10.7. (A record is synthesized
  unless the geometry is a multi-polygon without parts, for which the centroid raises.)
\<close>

theorem unmatched_without_Ward_No:
  "prop_Ward_No f = JUndefined \<and> geometry f \<noteq> Some (MultiPolygon []) \<longrightarrow>
     wardNoHash f = 48 \<and> isEstimated f wards \<and>
     (\<exists>w. clickedWard f wards stations p now = Inr w \<and>
          ward_no w = JStr ''N/A'' \<and>
          population w = 139232 \<and>
          area_sqkm w = js_round ((2.5 + js_rem (48 * 0.17) 12) * 10) / 10 \<and>
          area_sqkm w = 10.7)"
proof (intro impI)
  assume h: "prop_Ward_No f = JUndefined \<and> geometry f \<noteq> Some (MultiPolygon [])"
  then have no: "prop_Ward_No f = JUndefined" and g: "geometry f \<noteq> Some (MultiPolygon [])"
    by simp_all
  from no have u: "findWardForFeature f wards = None"
    by (simp add: findWardForFeature_falsy)
  from no have hash: "wardNoHash f = 48" by (rule wardNoHash_default)
  from g obtain c where c: "getFeatureCentroid f = Inr c"
    using getFeatureCentroid_total by blast
  have "\<exists>a. featureAqi f wards stations p = Inr a"
    using u c by (cases c) (simp_all add: featureAqi_def getInterpolatedAqi_def)
  then obtain a where a: "featureAqi f wards stations p = Inr a" ..
  have pop: "80000 + js_rem (real 48 * 1234) 400000 = 139232"
    by (simp add: js_rem_def)
  have area: "js_round ((2.5 + js_rem (real 48 * 0.17) 12) * 10) / 10 = 10.7"
    by (simp add: js_rem_def js_round_def)
  have area': "js_round ((2.5 + js_rem (48 * 0.17) 12) * 10) / 10 = 10.7"
    by (simp add: js_rem_def js_round_def)
  show "wardNoHash f = 48 \<and> isEstimated f wards \<and>
     (\<exists>w. clickedWard f wards stations p now = Inr w \<and>
          ward_no w = JStr ''N/A'' \<and>
          population w = 139232 \<and>
          area_sqkm w = js_round ((2.5 + js_rem (48 * 0.17) 12) * 10) / 10 \<and>
          area_sqkm w = 10.7)"
    using u c a hash no pop area area'
    by (simp add: clickedWard_def isEstimated_def Let_def js_or_def)
qed

text \<open>
  Witness for C10: \<open>feature9\<close>, whose properties have no \<^verbatim>\<open>Ward_No\<close>, and
  \<open>featureNoProperties\<close>, whose properties are \<^verbatim>\<open>null\<close>.
\<close>

theorem unmatched_without_Ward_No_witness:
  "prop_Ward_No feature9 = JUndefined \<and>
   geometry feature9 \<noteq> Some (MultiPolygon []) \<and>
   wardNoHash feature9 = 48 \<and>
   (\<exists>w. clickedWard feature9 [ward12, ward7] [stationA, stationB] 50
          ''2024-05-05T10:00:00.000Z'' = Inr w \<and>
        ward_no w = JStr ''N/A'' \<and> population w = 139232 \<and> area_sqkm w = 10.7) \<and>
   prop_Ward_No featureNoProperties = JUndefined \<and>
   geometry featureNoProperties \<noteq> Some (MultiPolygon []) \<and>
   (\<exists>w. clickedWard featureNoProperties [ward12, ward7] [] 0
          ''2024-05-05T10:00:00.000Z'' = Inr w \<and>
        ward_no w = JStr ''N/A'' \<and> population w = 139232 \<and> area_sqkm w = 10.7)"
proof -
  have a: "prop_Ward_No feature9 = JUndefined \<and> geometry feature9 \<noteq> Some (MultiPolygon [])"
    by (simp add: prop_Ward_No_def feature9_def exampleFeature_def)
  have b: "prop_Ward_No featureNoProperties = JUndefined \<and>
      geometry featureNoProperties \<noteq> Some (MultiPolygon [])"
    by (simp add: prop_Ward_No_def featureNoProperties_def)
  from a b
    unmatched_without_Ward_No [of feature9 "[ward12, ward7]" "[stationA, stationB]" 50
      "''2024-05-05T10:00:00.000Z''"]
    unmatched_without_Ward_No [of featureNoProperties "[ward12, ward7]" "[]" 0
      "''2024-05-05T10:00:00.000Z''"]
  show ?thesis by blast
qed


end
